theory Spec2Isabelle
  imports Complex_Main
begin

section \<open>The shell context and the world around it\<close>

text \<open>
  The commands of ldc run inside an interactive shell. Every function of the source takes
  the shell context \<^verbatim>\<open>c *ishell.Context\<close>, prints through it, reads lines from it and looks
  configuration values up in it. The model threads one record through every call: what the
  user will type (a stream of lines and the position reached in it), what has been printed
  so far, the values and arguments of the context, and the parts of the operating system
  and of the remote API that the functions touch.

  Go's \<^verbatim>\<open>error\<close> values are modelled by their message, a string; \<^verbatim>\<open>nil\<close> is \<open>None\<close>.
\<close>

type_synonym error = string

datatype ctx_val = VBool bool | VString string | VOther

datatype out =
    Print string
  | Println "string list"
  | Printf string "string list"
  | Err error

datatype json =
    JNull
  | JBool bool
  | JNum rat
  | JStr string
  | JArr "json list"
  | JObj "(string \<times> json) list"

text \<open>\<^verbatim>\<open>jsonpatch.JsonPatchOperation\<close>: the diff library's operation.\<close>

record json_patch_operation =
  Operation :: string
  jPath :: string
  jValue :: json

text \<open>\<^verbatim>\<open>ldapi.Project\<close>, with the fields the commands read.\<close>

record project =
  Key :: string
  Name :: string

datatype api_call = GetProjects | DeleteProject string

type_synonym addr = nat

record world =
  stdin :: "nat \<Rightarrow> string"
  pos :: nat
  stdout :: "out list"
  vals :: "string \<rightharpoonup> ctx_val"
  args :: "string list"
  multiChoice :: "string list \<Rightarrow> string \<Rightarrow> int"
  commandV :: "string \<Rightarrow> error + string"
  files :: "string \<rightharpoonup> string"
  spawned :: "(string \<times> string list) list"
  heap :: "addr \<rightharpoonup> json_patch_operation"
  nextAddr :: addr
  apiLog :: "api_call list"
  getProjectsResp :: "nat \<Rightarrow> error + project list"
  deleteProjectResp :: "string \<Rightarrow> error option"

definition cINTERACTIVE :: string where
  "cINTERACTIVE = ''interactive''"

definition cEDITOR :: string where
  "cEDITOR = ''editor''"

definition errAborted :: error where
  "errAborted = ''aborted''"

subsection \<open>Console primitives\<close>

definition emit :: "out \<Rightarrow> world \<Rightarrow> world" where
  "emit x w = w\<lparr>stdout := stdout w @ [x]\<rparr>"

text \<open>\<^verbatim>\<open>c.ReadLine()\<close>: the next line the user types.\<close>

definition ReadLine :: "world \<Rightarrow> string \<times> world" where
  "ReadLine w = (stdin w (pos w), w\<lparr>pos := Suc (pos w)\<rparr>)"

text \<open>
  \<^verbatim>\<open>strings.ToLower\<close> on the ASCII letters. Go lowers every Unicode letter; no code point
  other than \<open>Y\<close> has the lower case \<open>y\<close>, so the comparison with \<^verbatim>\<open>"y"\<close> that the source
  makes has the same answer.
\<close>

definition toLowerChar :: "char \<Rightarrow> char" where
  "toLowerChar c =
     (let n = (of_char c :: nat) in if 65 \<le> n \<and> n \<le> 90 then char_of (n + 32) else c)"

definition ToLower :: "string \<Rightarrow> string" where
  "ToLower s = map toLowerChar s"

text \<open>
  \<^verbatim>\<open>
  func yesOrNo(c *ishell.Context) (yes bool) {
      val := c.ReadLine()
      if val == "" || strings.ToLower(val) == "y" {
          return true
      }
      return false
  }
  \<close>
\<close>

definition yesOrNo :: "world \<Rightarrow> bool \<times> world" where
  "yesOrNo w =
     (let (val, w1) = ReadLine w
      in if val = '''' \<or> ToLower val = ''y'' then (True, w1) else (False, w1))"

text \<open>
  \<^verbatim>\<open>
  func isInteractive(c *ishell.Context) bool {
      return reflect.DeepEqual(c.Get(cINTERACTIVE), true)
  }
  \<close>
  \<^verbatim>\<open>c.Get\<close> returns \<^verbatim>\<open>nil\<close> for a key that was never set; only the boolean \<^verbatim>\<open>true\<close> is
  deeply equal to \<^verbatim>\<open>true\<close>.
\<close>

definition isInteractive :: "world \<Rightarrow> bool" where
  "isInteractive w = (vals w cINTERACTIVE = Some (VBool True))"

text \<open>
  \<^verbatim>\<open>
  func confirmDelete(c *ishell.Context, name string, expectedValue string) bool {
      if !isInteractive(c) {
          return true
      }
      c.Printf("Re-enter the %s '%s' to delete: ", name, expectedValue)
      value := c.ReadLine()
      return value == expectedValue
  }
  \<close>
\<close>

definition confirmDelete :: "string \<Rightarrow> string \<Rightarrow> world \<Rightarrow> bool \<times> world" where
  "confirmDelete name expectedValue w =
     (if \<not> isInteractive w then (True, w)
      else
        let w1 = emit (Printf (''Re-enter the %s '' @ [CHR 0x27] @ ''%s'' @ [CHR 0x27] @ '' to delete: '')
                         [name, expectedValue]) w;
            (val, w2) = ReadLine w1
        in (val = expectedValue, w2))"

section \<open>The edit workflow\<close>

text \<open>
  \<^verbatim>\<open>ldapi.PatchOperation\<close> and \<^verbatim>\<open>ldapi.PatchComment\<close>. The field \<^verbatim>\<open>Value\<close> of a patch operation is
  a pointer (\<^verbatim>\<open>*interface{}\<close>): the model keeps the address, and the heap of the world maps
  it to the variable it points into.
\<close>

record patch_operation =
  Op :: string
  Path :: string
  Value :: addr

record patch_comment =
  Comment :: string
  Patch :: "patch_operation list"

text \<open>
  What \<^verbatim>\<open>editFile\<close> hands back: the pair \<^verbatim>\<open>(patch, err)\<close> of a normal return, or a run-time
  panic.
\<close>

datatype go_return = Panic string | Return "patch_comment option" "error option"

text \<open>
  One pass through the body of the \<^verbatim>\<open>for\<close> loop talks to the operating system nine times
  and lets the user work in the editor. An \<open>attempt\<close> records how the operating system
  and the user answer during that pass: the result of \<^verbatim>\<open>ioutil.TempFile\<close> (an error or the
  name of the new file), the errors of \<^verbatim>\<open>Write\<close>, \<^verbatim>\<open>Close\<close>, \<^verbatim>\<open>os.StartProcess\<close>, \<^verbatim>\<open>Wait\<close>,
  \<^verbatim>\<open>os.Open\<close>, \<^verbatim>\<open>os.Remove\<close> and of the second \<^verbatim>\<open>Close\<close>, what the user turns the seeded text
  into, and, when \<^verbatim>\<open>ioutil.ReadAll\<close> fails, how many bytes it had read and the error.
  The loop has no bound, so it is run against a script of attempts; a script that ends
  while the loop still runs gives \<open>None\<close>.
\<close>

record attempt =
  tempFile :: "error + string"
  writeErr :: "error option"
  closeErr :: "error option"
  startErr :: "error option"
  waitErr :: "error option"
  edit :: "string \<Rightarrow> string"
  openErr :: "error option"
  readErr :: "(nat \<times> error) option"
  removeErr :: "error option"
  reopenCloseErr :: "error option"

text \<open>
  \<^verbatim>\<open>strings.TrimSpace\<close>, on the ASCII white space (tab, line feed, vertical tab, form feed,
  carriage return, space).
\<close>

definition isSpace :: "char \<Rightarrow> bool" where
  "isSpace c = (let n = (of_char c :: nat) in (9 \<le> n \<and> n \<le> 13) \<or> n = 32)"

definition TrimSpace :: "string \<Rightarrow> string" where
  "TrimSpace s = rev (dropWhile isSpace (rev (dropWhile isSpace s)))"

text \<open>How \<^verbatim>\<open>Println\<close> shows an \<^verbatim>\<open>error\<close> operand.\<close>

definition showErr :: "error option \<Rightarrow> string" where
  "showErr err = (case err of None \<Rightarrow> ''<nil>'' | Some e \<Rightarrow> e)"

text \<open>
  Lines 98 to 112: create the scratch file, write the seed, close it.
  \<^verbatim>\<open>
  file, err := ioutil.TempFile("/tmp", "ldc")
  if err != nil { c.Err(err); return nil, err }
  name := file.Name()
  _, err = file.Write(current)
  if err != nil { c.Err(err); return nil, err }
  if err := file.Close(); err != nil { c.Err(err); return nil, err }
  \<close>
\<close>

definition seedFile :: "string \<Rightarrow> attempt \<Rightarrow> world \<Rightarrow> (error \<times> world) + (string \<times> world)" where
  "seedFile current a w =
     (case tempFile a of
        Inl e \<Rightarrow> Inl (e, emit (Err e) w)
      | Inr name \<Rightarrow>
          let w1 = w\<lparr>files := (files w)(name \<mapsto> [])\<rparr> in
          (case writeErr a of
             Some e \<Rightarrow> Inl (e, emit (Err e) w1)
           | None \<Rightarrow>
               let w2 = w1\<lparr>files := (files w1)(name \<mapsto> current)\<rparr> in
               (case closeErr a of
                  Some e \<Rightarrow> Inl (e, emit (Err e) w2)
                | None \<Rightarrow> Inr (name, w2))))"

text \<open>
  Lines 114 to 126: start the editor on the file, wait for it, reopen the file.
  \<^verbatim>\<open>
  proc, err := os.StartProcess(editorPath, []string{editor, name}, ...)
  if err != nil { return nil, err }
  if _, err := proc.Wait(); err != nil { c.Err(err); return nil, err }
  file, err = os.Open(name)
  if err != nil { return nil, err }
  \<close>
\<close>

definition runEditor ::
  "string \<Rightarrow> string \<Rightarrow> string \<Rightarrow> attempt \<Rightarrow> world \<Rightarrow> (error \<times> world) + world" where
  "runEditor editorPath editor name a w =
     (case startErr a of
        Some e \<Rightarrow> Inl (e, w)
      | None \<Rightarrow>
          let w1 = w\<lparr>spawned := spawned w @ [(editorPath, [editor, name])]\<rparr> in
          (case waitErr a of
             Some e \<Rightarrow> Inl (e, emit (Err e) w1)
           | None \<Rightarrow>
               let w2 = w1\<lparr>files := (files w1)(name \<mapsto> edit a (case files w1 name of Some s \<Rightarrow> s | None \<Rightarrow> []))\<rparr> in
               (case openErr a of
                  Some e \<Rightarrow> Inl (e, w2)
                | None \<Rightarrow> Inr w2)))"

text \<open>
  Lines 128 to 133: read the file, then remove it. The result is \<^verbatim>\<open>newData\<close>, \<^verbatim>\<open>fileErr\<close>
  and the \<^verbatim>\<open>err\<close> of \<^verbatim>\<open>os.Remove\<close>.
  \<^verbatim>\<open>
  newData, fileErr := ioutil.ReadAll(file)
  err = os.Remove(name)
  if err != nil { c.Println("Unable to delete temporary file: %s", err) }
  \<close>
\<close>

definition readBack ::
  "string \<Rightarrow> attempt \<Rightarrow> world \<Rightarrow> string \<times> error option \<times> error option \<times> world" where
  "readBack name a w =
     (let content = (case files w name of Some s \<Rightarrow> s | None \<Rightarrow> []);
          (newData, fileErr) =
             (case readErr a of None \<Rightarrow> (content, None) | Some (n, e) \<Rightarrow> (take n content, Some e))
      in case removeErr a of
           None \<Rightarrow> (newData, fileErr, None, w\<lparr>files := (files w)(name := None)\<rparr>)
         | Some e \<Rightarrow>
             (newData, fileErr, Some e,
              emit (Println [''Unable to delete temporary file: %s'', e]) w))"

datatype loop_exit =
    Continue string "json_patch_operation list"
  | Break "json_patch_operation list"
  | ReturnErr error

text \<open>
  Lines 135 to 164: the read failure, the second close, the diff and the retry prompt.
  \<open>Continue\<close> carries the values of \<^verbatim>\<open>current\<close> and \<^verbatim>\<open>patchOps\<close> for the next pass,
  \<open>Break\<close> the value of \<^verbatim>\<open>patchOps\<close> on leaving the loop.
\<close>

definition validate ::
  "(string \<Rightarrow> string \<Rightarrow> error + json_patch_operation list) \<Rightarrow> string \<Rightarrow>
   json_patch_operation list \<Rightarrow> attempt \<Rightarrow> string \<Rightarrow> error option \<Rightarrow> error option \<Rightarrow> world \<Rightarrow>
   loop_exit \<times> world" where
  "validate CreatePatch original patchOps a newData fileErr err w =
     (let (goOn, w1) =
            (if fileErr \<noteq> None then
               yesOrNo (emit (Print ''Try again? [y]/n  '')
                          (emit (Println [''Unable to read file: %s'', showErr err]) w))
             else (True, w))
      in if \<not> goOn then (Break patchOps, emit (Println [''Edit aborted'']) w1)
         else
           (case reopenCloseErr a of
              Some e \<Rightarrow> (ReturnErr e, w1)
            | None \<Rightarrow>
                (case CreatePatch original newData of
                   Inl e \<Rightarrow>
                     let w2 = (if e = ''Invalid JSON Document''
                               then emit (Print ''Unable to parse json. Make changes? [y]/n '') w1
                               else emit (Print ''Make changes? [y]/n '')
                                      (emit (Printf (''Unable to create patch: %s'' @ [CHR 0x0A]) [e]) w1));
                         (yes, w3) = yesOrNo w2
                     in if \<not> yes then (Break [], emit (Println [''Edit aborted'']) w3)
                        else (Continue newData [], w3)
                 | Inr ops \<Rightarrow> (Break ops, w1))))"

text \<open>One pass through the loop body.\<close>

definition attemptStep ::
  "(string \<Rightarrow> string \<Rightarrow> error + json_patch_operation list) \<Rightarrow> string \<Rightarrow> string \<Rightarrow> string \<Rightarrow>
   string \<Rightarrow> json_patch_operation list \<Rightarrow> attempt \<Rightarrow> world \<Rightarrow> loop_exit \<times> world" where
  "attemptStep CreatePatch original editorPath editor current patchOps a w =
     (case seedFile current a w of
        Inl (e, w1) \<Rightarrow> (ReturnErr e, w1)
      | Inr (name, w1) \<Rightarrow>
          (case runEditor editorPath editor name a w1 of
             Inl (e, w2) \<Rightarrow> (ReturnErr e, w2)
           | Inr w2 \<Rightarrow>
               let (newData, fileErr, err, w3) = readBack name a w2
               in validate CreatePatch original patchOps a newData fileErr err w3))"

text \<open>
  Lines 171 to 178. The source is written for Go before 1.22, where the variable of a
  \<^verbatim>\<open>range\<close> loop is one variable for the whole loop: every pass copies the next element
  into \<^verbatim>\<open>op\<close>, and \<^verbatim>\<open>&op.Value\<close> is the same address in every pass.
  \<^verbatim>\<open>
  for _, op := range patchOps {
      patchComment.Patch = append(patchComment.Patch, ldapi.PatchOperation{
          Op: op.Operation, Path: op.Path, Value: &op.Value,
      })
  }
  \<close>
\<close>

fun rangeOps ::
  "addr \<Rightarrow> json_patch_operation list \<Rightarrow> patch_operation list \<Rightarrow> world \<Rightarrow>
   patch_operation list \<times> world" where
  "rangeOps opAddr [] acc w = (acc, w)"
| "rangeOps opAddr (x # xs) acc w =
     rangeOps opAddr xs
       (acc @ [\<lparr>Op = Operation x, Path = jPath x, Value = opAddr\<rparr>])
       (w\<lparr>heap := (heap w)(opAddr \<mapsto> x)\<rparr>)"

text \<open>
  Lines 167 to 182, after the loop.
  \<^verbatim>\<open>
  if len(patchOps) == 0 { return nil, nil }
  var patchComment ldapi.PatchComment
  for _, op := range patchOps { ... }
  c.Print("Enter comment: ")
  patchComment.Comment = c.ReadLine()
  return &patchComment, nil
  \<close>
\<close>

definition afterLoop :: "json_patch_operation list \<Rightarrow> world \<Rightarrow> go_return \<times> world" where
  "afterLoop patchOps w =
     (if length patchOps = 0 then (Return None None, w)
      else
        let opAddr = nextAddr w;
            (patch, w1) = rangeOps opAddr patchOps [] (w\<lparr>nextAddr := Suc opAddr\<rparr>);
            (line, w2) = ReadLine (emit (Print ''Enter comment: '') w1)
        in (Return (Some \<lparr>Comment = line, Patch = patch\<rparr>) None, w2))"

text \<open>The \<^verbatim>\<open>for\<close> loop of lines 97 to 165, followed by the lines after it.\<close>

fun editLoop ::
  "(string \<Rightarrow> string \<Rightarrow> error + json_patch_operation list) \<Rightarrow> string \<Rightarrow> string \<Rightarrow> string \<Rightarrow>
   string \<Rightarrow> json_patch_operation list \<Rightarrow> attempt list \<Rightarrow> world \<Rightarrow> (go_return \<times> world) option" where
  "editLoop CreatePatch original editorPath editor current patchOps [] w = None"
| "editLoop CreatePatch original editorPath editor current patchOps (a # rest) w =
     (case attemptStep CreatePatch original editorPath editor current patchOps a w of
        (Continue current' patchOps', w') \<Rightarrow>
          editLoop CreatePatch original editorPath editor current' patchOps' rest w'
      | (Break patchOps', w') \<Rightarrow> Some (afterLoop patchOps' w')
      | (ReturnErr e, w') \<Rightarrow> Some (Return None (Some e), w'))"

text \<open>
  \<^verbatim>\<open>
  func editFile(c *ishell.Context, original []byte) (patch *ldapi.PatchComment, err error) {
      editor := c.Get(cEDITOR).(string)
      cmd := exec.Command("command", "-v", editor)
      editorPathRaw, err := cmd.Output()
      if err != nil { c.Err(err); return nil, err }
      editorPath := strings.TrimSpace(string(editorPathRaw))
      var patchOps []jsonpatch.JsonPatchOperation
      current := original
      for { ... }
      ...
  }
  \<close>
  The diff library's \<^verbatim>\<open>jsonpatch.CreatePatch\<close> is a parameter: the answers the library
  gives during one session. The library ranges over Go maps, so the order in which it
  lists the operations for the same two documents is not fixed, and two sessions may see
  different answers. The type assertion on the editor setting panics when the setting is
  not a string.
\<close>

definition editFile ::
  "(string \<Rightarrow> string \<Rightarrow> error + json_patch_operation list) \<Rightarrow> string \<Rightarrow> attempt list \<Rightarrow>
   world \<Rightarrow> (go_return \<times> world) option" where
  "editFile CreatePatch original script w =
     (case vals w cEDITOR of
        Some (VString editor) \<Rightarrow>
          (case commandV w editor of
             Inl e \<Rightarrow> Some (Return None (Some e), emit (Err e) w)
           | Inr editorPathRaw \<Rightarrow>
               editLoop CreatePatch original (TrimSpace editorPathRaw) editor original [] script w)
      | _ \<Rightarrow> Some (Panic ''interface conversion: interface {} is not string'', w))"

text \<open>
  What a reader of the returned patch sees: each operation with the value its pointer
  leads to.
\<close>

definition wire :: "world \<Rightarrow> patch_comment \<Rightarrow> (string \<times> string \<times> json option) list" where
  "wire w pc = map (\<lambda>p. (Op p, Path p, map_option jValue (heap w (Value p)))) (Patch pc)"

section \<open>The project commands\<close>

text \<open>A call that returns, or a run-time panic.\<close>

datatype 'a outcome = Panicked string | Returned 'a

text \<open>
  The remote API is outside the repository. The world logs every request made and holds
  the answers the service will give: to the \<open>n\<close>-th request when it lists the projects,
  and to a deletion by key.
  \<^verbatim>\<open>
  func listProjects() ([]ldapi.Project, error) {
      projects, _, err := api.Client.ProjectsApi.GetProjects(api.Auth)
      if err != nil { return nil, err }
      return projects.Items, nil
  }
  \<close>
\<close>

definition listProjects :: "world \<Rightarrow> (error + project list) \<times> world" where
  "listProjects w =
     (getProjectsResp w (length (apiLog w)), w\<lparr>apiLog := apiLog w @ [GetProjects]\<rparr>)"

text \<open>
  \<^verbatim>\<open>
  func listProjectKeys() ([]string, error) {
      var keys []string
      projects, _, err := api.Client.ProjectsApi.GetProjects(api.Auth)
      if err != nil { return nil, err }
      for _, project := range projects.Items { keys = append(keys, project.Key) }
      return keys, nil
  }
  \<close>
\<close>

definition listProjectKeys :: "world \<Rightarrow> (error + string list) \<times> world" where
  "listProjectKeys w =
     (case getProjectsResp w (length (apiLog w)) of
        Inl e \<Rightarrow> (Inl e, w\<lparr>apiLog := apiLog w @ [GetProjects]\<rparr>)
      | Inr projects \<Rightarrow> (Inr (map Key projects), w\<lparr>apiLog := apiLog w @ [GetProjects]\<rparr>))"

text \<open>
  \<^verbatim>\<open>
  func getProjectArg(c *ishell.Context) *ldapi.Project {
      projects, err := listProjects()
      if err != nil { c.Err(err); return nil }
      var foundProject *ldapi.Project
      if len(c.Args) > 0 {
          projectKey := c.Args[0]
          for _, project := range projects {
              if project.Key == projectKey { copy := project; foundProject = &copy }
          }
          if foundProject == nil { c.Printf("Project %s does not exist\n", projectKey) }
      } else {
          options, err := listProjectKeys()
          if err != nil { c.Err(err); return nil }
          choice := c.MultiChoice(options, "Choose a project")
          foundProject = &projects[choice]
      }
      return foundProject
  }
  \<close>
  The last project with the key wins; an index outside the slice panics.
\<close>

definition getProjectArg :: "world \<Rightarrow> project option outcome \<times> world" where
  "getProjectArg w =
     (let (r, w1) = listProjects w
      in case r of
           Inl e \<Rightarrow> (Returned None, emit (Err e) w1)
         | Inr projects \<Rightarrow>
             if length (args w1) > 0 then
               (case args w1 of
                  [] \<Rightarrow> (Returned None, w1)
                | projectKey # _ \<Rightarrow>
                    let foundProject =
                          fold (\<lambda>project found. if Key project = projectKey then Some project else found)
                            projects None
                    in if foundProject = None
                       then (Returned None,
                             emit (Printf (''Project %s does not exist'' @ [CHR 0x0A]) [projectKey]) w1)
                       else (Returned foundProject, w1))
             else
               (let (r2, w2) = listProjectKeys w1
                in case r2 of
                     Inl e \<Rightarrow> (Returned None, emit (Err e) w2)
                   | Inr options \<Rightarrow>
                       let choice = multiChoice w2 options ''Choose a project''
                       in if 0 \<le> choice \<and> choice < int (length projects)
                          then (Returned (Some (projects ! nat choice)), w2)
                          else (Panicked ''index out of range'', w2)))"

text \<open>
  \<^verbatim>\<open>
  func deleteProject(c *ishell.Context) {
      project := getProjectArg(c)
      if project != nil {
          return
      }
      confirmDelete(c, "project key", project.Key)
      if project != nil {
          _, err := api.Client.ProjectsApi.DeleteProject(api.Auth, project.Key)
          if err != nil { c.Err(err); return }
          c.Printf("Deleted project %s\n", project.Key)
      }
  }
  \<close>
  The argument \<^verbatim>\<open>project.Key\<close> of \<^verbatim>\<open>confirmDelete\<close> is evaluated before the call; on a nil
  pointer that is a panic.
\<close>

definition deleteProject :: "world \<Rightarrow> unit outcome \<times> world" where
  "deleteProject w =
     (case getProjectArg w of
        (Panicked m, w1) \<Rightarrow> (Panicked m, w1)
      | (Returned project, w1) \<Rightarrow>
          if project \<noteq> None then (Returned (), w1)
          else
            (case project of
               None \<Rightarrow> (Panicked ''invalid memory address or nil pointer dereference'', w1)
             | Some p \<Rightarrow>
                 let (confirmed, w2) = confirmDelete ''project key'' (Key p) w1
                 in if project \<noteq> None then
                      (let w3 = w2\<lparr>apiLog := apiLog w2 @ [DeleteProject (Key p)]\<rparr>
                       in case deleteProjectResp w3 (Key p) of
                            Some e \<Rightarrow> (Returned (), emit (Err e) w3)
                          | None \<Rightarrow>
                              (Returned (),
                               emit (Printf (''Deleted project %s'' @ [CHR 0x0A]) [Key p]) w3))
                    else (Returned (), w2)))"

section \<open>The diff engine\<close>

text \<open>
  Modelled from the spec: the Diff Engine of section 4.4, which the source takes from the
  library \<^verbatim>\<open>github.com/mattbaird/jsonpatch\<close>, outside the repository. Both texts must
  parse as JSON documents; the result is a list of add, remove and replace operations with
  pointer paths, and it is empty when the two documents have the same structure and
  values. A document is a JSON object, as the resources of the service are.

  The reader follows the JSON grammar: white space between tokens is skipped, strings are
  unescaped, numbers are read as the exact rational they denote (and must fit a 64-bit
  float: below ten to the power 308), and the members of an object are kept sorted
  by key, a later member replacing an earlier one with the same key. So two texts that
  differ in white space, in the order of members or in the spelling of a string or number
  are read as the same value.
\<close>

definition isWs :: "char \<Rightarrow> bool" where
  "isWs c = (let n = (of_char c :: nat) in n = 32 \<or> n = 9 \<or> n = 10 \<or> n = 13)"

definition skipWs :: "string \<Rightarrow> string" where
  "skipWs s = dropWhile isWs s"

definition isDigit :: "char \<Rightarrow> bool" where
  "isDigit c = (let n = (of_char c :: nat) in 48 \<le> n \<and> n \<le> 57)"

definition digitsVal :: "string \<Rightarrow> nat" where
  "digitsVal s = foldl (\<lambda>acc c. 10 * acc + ((of_char c :: nat) - 48)) 0 s"

definition hexVal :: "char \<Rightarrow> nat option" where
  "hexVal c =
     (let n = (of_char c :: nat)
      in if 48 \<le> n \<and> n \<le> 57 then Some (n - 48)
         else if 97 \<le> n \<and> n \<le> 102 then Some (n - 87)
         else if 65 \<le> n \<and> n \<le> 70 then Some (n - 55)
         else None)"

text \<open>The code point of \<^verbatim>\<open>\uXXXX\<close>; the halves of surrogate pairs are not read.\<close>

definition codePoint :: "char \<Rightarrow> char \<Rightarrow> char \<Rightarrow> char \<Rightarrow> nat option" where
  "codePoint a b c d =
     (case (hexVal a, hexVal b, hexVal c, hexVal d) of
        (Some x, Some y, Some z, Some u) \<Rightarrow>
          (let n = ((x * 16 + y) * 16 + z) * 16 + u
           in if 55296 \<le> n \<and> n < 57344 then None else Some n)
      | _ \<Rightarrow> None)"

definition utf8 :: "nat \<Rightarrow> string" where
  "utf8 n =
     (if n < 128 then [char_of n]
      else if n < 2048 then [char_of (192 + n div 64), char_of (128 + n mod 64)]
      else [char_of (224 + n div 4096), char_of (128 + (n div 64) mod 64),
            char_of (128 + n mod 64)])"

definition unescape :: "char \<Rightarrow> char option" where
  "unescape e =
     (if e = CHR 0x22 \<or> e = CHR 0x5C \<or> e = CHR ''/'' then Some e
      else if e = CHR ''b'' then Some (CHR 0x08)
      else if e = CHR ''f'' then Some (CHR 0x0C)
      else if e = CHR ''n'' then Some (CHR 0x0A)
      else if e = CHR ''r'' then Some (CHR 0x0D)
      else if e = CHR ''t'' then Some (CHR 0x09)
      else None)"

text \<open>The rest of a string after its opening quote: the string read and the text after it.\<close>

fun parseStr :: "string \<Rightarrow> string \<Rightarrow> (string \<times> string) option" where
  "parseStr acc [] = None"
| "parseStr acc (c # cs) =
     (if c = CHR 0x22 then Some (acc, cs)
      else if c = CHR 0x5C then
        (case cs of
           [] \<Rightarrow> None
         | e # r \<Rightarrow>
             if e = CHR ''u'' then
               (case r of
                  h1 # h2 # h3 # h4 # r' \<Rightarrow>
                    (case codePoint h1 h2 h3 h4 of
                       None \<Rightarrow> None
                     | Some n \<Rightarrow> parseStr (acc @ utf8 n) r')
                | _ \<Rightarrow> None)
             else
               (case unescape e of
                  None \<Rightarrow> None
                | Some x \<Rightarrow> parseStr (acc @ [x]) r))
      else if (of_char c :: nat) < 32 then None
      else parseStr (acc @ [c]) cs)"

text \<open>
  A number: an optional minus sign, digits without a leading zero, an optional fraction
  and an optional exponent.
\<close>

definition parseNumber :: "string \<Rightarrow> (json \<times> string) option" where
  "parseNumber s =
     (let (neg, s1) = (case s of c # r \<Rightarrow> if c = CHR ''-'' then (True, r) else (False, s)
                       | [] \<Rightarrow> (False, []));
          ip = takeWhile isDigit s1;
          s2 = dropWhile isDigit s1;
          (dot, fp, s3) =
            (case s2 of
               c # r \<Rightarrow> if c = CHR ''.'' then (True, takeWhile isDigit r, dropWhile isDigit r)
                        else (False, [], s2)
             | [] \<Rightarrow> (False, [], []));
          (ex, eneg, ep, s4) =
            (case s3 of
               c # r \<Rightarrow>
                 if c = CHR ''e'' \<or> c = CHR ''E'' then
                   (case r of
                      d # r' \<Rightarrow>
                        if d = CHR ''-'' then (True, True, takeWhile isDigit r', dropWhile isDigit r')
                        else if d = CHR ''+'' then (True, False, takeWhile isDigit r', dropWhile isDigit r')
                        else (True, False, takeWhile isDigit r, dropWhile isDigit r)
                    | [] \<Rightarrow> (True, False, [], []))
                 else (False, False, [], s3)
             | [] \<Rightarrow> (False, False, [], []));
          e = (if eneg then - int (digitsVal ep) else int (digitsVal ep)) - int (length fp);
          m = (of_nat (digitsVal (ip @ fp)) :: rat);
          v = (if 0 \<le> e then m * 10 ^ nat e else m / 10 ^ nat (- e))
      in if ip = [] \<or> (length ip > 1 \<and> take 1 ip = ''0'') \<or> (dot \<and> fp = []) \<or> (ex \<and> ep = [])
            \<or> 10 ^ 308 \<le> v
         then None
         else Some (JNum (if neg then - v else v), s4))"

text \<open>Byte-wise order of keys.\<close>

fun strLess :: "string \<Rightarrow> string \<Rightarrow> bool" where
  "strLess [] [] = False"
| "strLess [] (y # ys) = True"
| "strLess (x # xs) [] = False"
| "strLess (x # xs) (y # ys) =
     ((of_char x :: nat) < of_char y \<or> (x = y \<and> strLess xs ys))"

fun insertKey :: "string \<Rightarrow> json \<Rightarrow> (string \<times> json) list \<Rightarrow> (string \<times> json) list" where
  "insertKey k v [] = [(k, v)]"
| "insertKey k v ((k', v') # rest) =
     (if k = k' then (k, v) # rest
      else if strLess k k' then (k, v) # (k', v') # rest
      else (k', v') # insertKey k v rest)"

text \<open>
  The reader of values. The first argument bounds the number of nested calls; each call
  reads at least one character, so the length of the text is enough.
\<close>

fun parseValue :: "nat \<Rightarrow> string \<Rightarrow> (json \<times> string) option"
  and parseItems :: "nat \<Rightarrow> json list \<Rightarrow> string \<Rightarrow> (json \<times> string) option"
  and parseMembers :: "nat \<Rightarrow> (string \<times> json) list \<Rightarrow> string \<Rightarrow> (json \<times> string) option" where
  "parseValue 0 s = None"
| "parseValue (Suc n) s =
     (case skipWs s of
        [] \<Rightarrow> None
      | c # cs \<Rightarrow>
          if c = CHR ''{'' then
            (case skipWs cs of
               [] \<Rightarrow> None
             | d # r \<Rightarrow> if d = CHR ''}'' then Some (JObj [], r) else parseMembers n [] cs)
          else if c = CHR ''['' then
            (case skipWs cs of
               [] \<Rightarrow> None
             | d # r \<Rightarrow> if d = CHR '']'' then Some (JArr [], r) else parseItems n [] cs)
          else if c = CHR 0x22 then
            (case parseStr [] cs of None \<Rightarrow> None | Some (str, r) \<Rightarrow> Some (JStr str, r))
          else if take 4 (c # cs) = ''true'' then Some (JBool True, drop 4 (c # cs))
          else if take 5 (c # cs) = ''false'' then Some (JBool False, drop 5 (c # cs))
          else if take 4 (c # cs) = ''null'' then Some (JNull, drop 4 (c # cs))
          else parseNumber (c # cs))"
| "parseItems 0 acc s = None"
| "parseItems (Suc n) acc s =
     (case parseValue n s of
        None \<Rightarrow> None
      | Some (v, r) \<Rightarrow>
          (case skipWs r of
             [] \<Rightarrow> None
           | d # r' \<Rightarrow>
               if d = CHR '','' then parseItems n (acc @ [v]) r'
               else if d = CHR '']'' then Some (JArr (acc @ [v]), r')
               else None))"
| "parseMembers 0 acc s = None"
| "parseMembers (Suc n) acc s =
     (case skipWs s of
        [] \<Rightarrow> None
      | q # r \<Rightarrow>
          if q \<noteq> CHR 0x22 then None
          else
            (case parseStr [] r of
               None \<Rightarrow> None
             | Some (k, r1) \<Rightarrow>
                 (case skipWs r1 of
                    [] \<Rightarrow> None
                  | col # r2 \<Rightarrow>
                      if col \<noteq> CHR '':'' then None
                      else
                        (case parseValue n r2 of
                           None \<Rightarrow> None
                         | Some (v, r3) \<Rightarrow>
                             (case skipWs r3 of
                                [] \<Rightarrow> None
                              | d # r4 \<Rightarrow>
                                  if d = CHR '','' then parseMembers n (insertKey k v acc) r4
                                  else if d = CHR ''}'' then Some (JObj (insertKey k v acc), r4)
                                  else None)))))"

text \<open>
  Modelled from the spec: both inputs must parse as JSON. A document is one JSON object,
  with nothing but white space after it.
\<close>

definition parseDocument :: "string \<Rightarrow> (string \<times> json) list option" where
  "parseDocument s =
     (case parseValue (Suc (length s)) s of
        Some (JObj members, r) \<Rightarrow> if skipWs r = [] then Some members else None
      | _ \<Rightarrow> None)"


text \<open>Pointer paths: a key with its \<open>~\<close> and \<open>/\<close> escaped, and an index in decimal.\<close>

definition escapeKey :: "string \<Rightarrow> string" where
  "escapeKey k =
     concat (map (\<lambda>c. if c = CHR ''~'' then ''~0'' else if c = CHR ''/'' then ''~1'' else [c]) k)"

function showNat :: "nat \<Rightarrow> string" where
  "showNat n =
     (if n < 10 then [char_of (48 + n)] else showNat (n div 10) @ [char_of (48 + n mod 10)])"
  by pat_completeness auto
termination
  by (relation "measure id") auto

definition child :: "string \<Rightarrow> string \<Rightarrow> string" where
  "child path name = path @ ''/'' @ name"

text \<open>
  Modelled from the spec: the operations that turn the first value into the second.
  Members and items are compared pairwise, a missing one is added or removed, and a value
  of another kind or another content is replaced.
\<close>

fun diffValue :: "string \<Rightarrow> json \<Rightarrow> json \<Rightarrow> json_patch_operation list"
  and diffMembers ::
    "string \<Rightarrow> (string \<times> json) list \<Rightarrow> (string \<times> json) list \<Rightarrow> json_patch_operation list"
  and diffItems :: "string \<Rightarrow> nat \<Rightarrow> json list \<Rightarrow> json list \<Rightarrow> json_patch_operation list" where
  "diffValue path (JObj xs) (JObj ys) = diffMembers path xs ys"
| "diffValue path (JArr xs) (JArr ys) = diffItems path 0 xs ys"
| "diffValue path x y =
     (if x = y then [] else [\<lparr>Operation = ''replace'', jPath = path, jValue = y\<rparr>])"
| "diffMembers path [] [] = []"
| "diffMembers path [] ((k, v) # ys) =
     \<lparr>Operation = ''add'', jPath = child path (escapeKey k), jValue = v\<rparr> # diffMembers path [] ys"
| "diffMembers path ((k, v) # xs) [] =
     \<lparr>Operation = ''remove'', jPath = child path (escapeKey k), jValue = JNull\<rparr>
       # diffMembers path xs []"
| "diffMembers path ((k, v) # xs) ((k', v') # ys) =
     (if k = k' then diffValue (child path (escapeKey k)) v v' @ diffMembers path xs ys
      else if strLess k k' then
        \<lparr>Operation = ''remove'', jPath = child path (escapeKey k), jValue = JNull\<rparr>
          # diffMembers path xs ((k', v') # ys)
      else
        \<lparr>Operation = ''add'', jPath = child path (escapeKey k'), jValue = v'\<rparr>
          # diffMembers path ((k, v) # xs) ys)"
| "diffItems path i [] [] = []"
| "diffItems path i [] (y # ys) =
     \<lparr>Operation = ''add'', jPath = child path (showNat i), jValue = y\<rparr>
       # diffItems path (Suc i) [] ys"
| "diffItems path i (x # xs) [] =
     \<lparr>Operation = ''remove'', jPath = child path (showNat i), jValue = JNull\<rparr>
       # diffItems path i xs []"
| "diffItems path i (x # xs) (y # ys) =
     diffValue (child path (showNat i)) x y @ diffItems path (Suc i) xs ys"

text \<open>
  Modelled from the spec: the contract \<^verbatim>\<open>diff(original, candidate)\<close> of section 4.4. When
  either text is not a document the engine fails with the invalid-document error;
  otherwise it lists the operations between the two objects, from the root.
\<close>

definition diffEngine :: "string \<Rightarrow> string \<Rightarrow> error + json_patch_operation list" where
  "diffEngine original candidate =
     (case (parseDocument original, parseDocument candidate) of
        (Some x, Some y) \<Rightarrow> Inr (diffMembers [] x y)
      | _ \<Rightarrow> Inl ''Invalid JSON Document'')"

section \<open>Concrete worlds for the examples\<close>

text \<open>
  A session in which nothing has happened yet: nothing typed, nothing printed, no setting,
  no file, no request, and an editor lookup that fails.
\<close>

definition emptyWorld :: world where
  "emptyWorld =
     \<lparr>stdin = (\<lambda>_. []), pos = 0, stdout = [], vals = Map.empty, args = [],
      multiChoice = (\<lambda>_ _. - 1), commandV = (\<lambda>_. Inl ''exit status 1''),
      files = Map.empty, spawned = [], heap = Map.empty, nextAddr = 0, apiLog = [],
      getProjectsResp = (\<lambda>_. Inr []), deleteProjectResp = (\<lambda>_. None)\<rparr>"

section \<open>Vocabulary of the statements about the edit workflow\<close>

text \<open>
  A pass in which every call to the operating system succeeds and the whole file is read
  back.
\<close>

definition ioOk :: "attempt \<Rightarrow> bool" where
  "ioOk a =
     ((case tempFile a of Inl _ \<Rightarrow> False | Inr _ \<Rightarrow> True) \<and> writeErr a = None \<and> closeErr a = None
      \<and> startErr a = None \<and> waitErr a = None \<and> openErr a = None \<and> readErr a = None
      \<and> reopenCloseErr a = None)"

text \<open>
  The world such a pass leaves when the file has been read back and removed: the editor
  has been started once, and the scratch file is gone, or, when the removal failed, is
  still there with the edited text and a warning has been printed.
\<close>

definition passWorld :: "string \<Rightarrow> string \<Rightarrow> string \<Rightarrow> attempt \<Rightarrow> world \<Rightarrow> world" where
  "passWorld editorPath editor current a w =
     (case tempFile a of
        Inl _ \<Rightarrow> w
      | Inr name \<Rightarrow>
          (case removeErr a of
             None \<Rightarrow>
               w\<lparr>files := (files w)(name := None),
                 spawned := spawned w @ [(editorPath, [editor, name])]\<rparr>
           | Some e \<Rightarrow>
               w\<lparr>stdout := stdout w @ [Println [''Unable to delete temporary file: %s'', e]],
                 files := (files w)(name \<mapsto> edit a current),
                 spawned := spawned w @ [(editorPath, [editor, name])]\<rparr>))"

text \<open>
  A run of invalid edits that the user chooses to keep working on: in each pass the
  operating system behaves, the diff of the original and the edited text fails, and the
  line typed at the prompt is a yes. The text is seeded with \<open>current\<close> and the answers
  are read from position \<open>p\<close> of the input on.
\<close>

fun retried ::
  "(string \<Rightarrow> string \<Rightarrow> error + json_patch_operation list) \<Rightarrow> string \<Rightarrow> (nat \<Rightarrow> string) \<Rightarrow>
   nat \<Rightarrow> string \<Rightarrow> attempt list \<Rightarrow> bool" where
  "retried CreatePatch original typed p current [] = True"
| "retried CreatePatch original typed p current (a # rest) =
     (ioOk a
      \<and> (case CreatePatch original (edit a current) of Inl _ \<Rightarrow> True | Inr _ \<Rightarrow> False)
      \<and> typed p \<in> {'''', ''y'', ''Y''}
      \<and> retried CreatePatch original typed (Suc p) (edit a current) rest)"

text \<open>The text the user has reached after a run of edits, each seeded with the one before.\<close>

fun seedAfter :: "string \<Rightarrow> attempt list \<Rightarrow> string" where
  "seedAfter current [] = current"
| "seedAfter current (a # rest) = seedAfter (edit a current) rest"

text \<open>The world after a run of passes of the loop body.\<close>

fun worldAfter ::
  "(string \<Rightarrow> string \<Rightarrow> error + json_patch_operation list) \<Rightarrow> string \<Rightarrow> string \<Rightarrow> string \<Rightarrow>
   string \<Rightarrow> attempt list \<Rightarrow> world \<Rightarrow> world" where
  "worldAfter CreatePatch original editorPath editor current [] w = w"
| "worldAfter CreatePatch original editorPath editor current (a # rest) w =
     worldAfter CreatePatch original editorPath editor (edit a current) rest
       (snd (attemptStep CreatePatch original editorPath editor current [] a w))"

text \<open>The patch operation made from a diff operation when the loop variable lives at \<open>opAddr\<close>.\<close>

definition opAt :: "addr \<Rightarrow> json_patch_operation \<Rightarrow> patch_operation" where
  "opAt opAddr x = \<lparr>Op = Operation x, Path = jPath x, Value = opAddr\<rparr>"

section \<open>Documents, attempts and sessions of the examples\<close>

definition docOriginal :: string where
  \<open>docOriginal = ''{"a":1,"b":2}''\<close>

definition docBroken :: string where
  \<open>docBroken = ''{"a":''\<close>

definition docSpaced :: string where
  \<open>docSpaced = ''{ "a": 1, "b": 2 }''\<close>

definition docOneChange :: string where
  \<open>docOneChange = ''{"a":3,"b":2}''\<close>

definition docTwoChanges :: string where
  \<open>docTwoChanges = ''{"a":3,"b":4}''\<close>

text \<open>
  The answers of the diff library when the first document is \<open>docOriginal\<close> and the second
  one is a document of the examples: no operation for the same document, one replacement
  per changed member, and the parse error for a text that is not a JSON object.
\<close>

definition diffDemo :: "string \<Rightarrow> string \<Rightarrow> error + json_patch_operation list" where
  "diffDemo original candidate =
     (if candidate = docOriginal \<or> candidate = docSpaced then Inr []
      else if candidate = docOneChange
        then Inr [\<lparr>Operation = ''replace'', jPath = ''/a'', jValue = JNum 3\<rparr>]
      else if candidate = docTwoChanges
        then Inr [\<lparr>Operation = ''replace'', jPath = ''/a'', jValue = JNum 3\<rparr>,
                  \<lparr>Operation = ''replace'', jPath = ''/b'', jValue = JNum 4\<rparr>]
      else Inl ''Invalid JSON Document'')"

text \<open>A pass in which nothing fails and the user saves the text \<open>saved\<close>.\<close>

definition cleanAttempt :: "string \<Rightarrow> string \<Rightarrow> attempt" where
  "cleanAttempt name saved =
     \<lparr>tempFile = Inr name, writeErr = None, closeErr = None, startErr = None, waitErr = None,
      edit = (\<lambda>_. saved), openErr = None, readErr = None, removeErr = None,
      reopenCloseErr = None\<rparr>"

text \<open>A session with the editor \<open>vi\<close> configured and found, in which the user types \<open>typed\<close>.\<close>

definition editorWorld :: "string list \<Rightarrow> world" where
  "editorWorld typed =
     emptyWorld\<lparr>stdin := (\<lambda>n. if n < length typed then typed ! n else []),
                vals := [cEDITOR \<mapsto> VString ''vi''],
                commandV := (\<lambda>_. Inr (''/usr/bin/vi'' @ [CHR 0x0A]))\<rparr>"

text \<open>The editor cannot be started.\<close>

definition startFails :: attempt where
  "startFails =
     (cleanAttempt ''/tmp/ldc1'' docOneChange)
       \<lparr>startErr := Some ''fork/exec /usr/bin/vi: permission denied''\<rparr>"

text \<open>Waiting for the editor fails.\<close>

definition waitFails :: attempt where
  "waitFails = (cleanAttempt ''/tmp/ldc1'' docOneChange)\<lparr>waitErr := Some ''wait: no child processes''\<rparr>"

text \<open>
  The user saves the changed document followed by a line feed; reading it back fails after
  the thirteen bytes of the document.
\<close>

definition readFails :: attempt where
  "readFails =
     (cleanAttempt ''/tmp/ldc1'' (docOneChange @ [CHR 0x0A]))
       \<lparr>readErr := Some (13, ''read /tmp/ldc1: input/output error'')\<rparr>"



text \<open>
  The answers of \<open>diffDemo\<close> with the two replacements listed in the other order. The
  library ranges over a Go map, so it may list the operations either way.
\<close>

definition diffDemoSwapped :: "string \<Rightarrow> string \<Rightarrow> error + json_patch_operation list" where
  "diffDemoSwapped original candidate =
     (if candidate = docTwoChanges
        then Inr [\<lparr>Operation = ''replace'', jPath = ''/b'', jValue = JNum 4\<rparr>,
                  \<lparr>Operation = ''replace'', jPath = ''/a'', jValue = JNum 3\<rparr>]
      else diffDemo original candidate)"

section \<open>Yes or no\<close>

lemma toLowerChar_y: "toLowerChar c = CHR ''y'' \<longleftrightarrow> c = CHR ''y'' \<or> c = CHR ''Y''"
proof (cases "65 \<le> (of_char c :: nat) \<and> (of_char c :: nat) \<le> 90")
  case True
  have "toLowerChar c = char_of (of_char c + 32 :: nat)"
    using True by (simp add: toLowerChar_def Let_def)
  also have "\<dots> = CHR ''y'' \<longleftrightarrow> (of_char c :: nat) + 32 = 121"
    using True by (simp add: char_of_eq_iff take_bit_eq_mod)
  also have "\<dots> \<longleftrightarrow> (of_char c :: nat) = of_char (CHR ''Y'')" by auto
  also have "\<dots> \<longleftrightarrow> c = CHR ''Y''" by (simp only: of_char_eq_iff)
  finally show ?thesis using True by auto
next
  case False
  then show ?thesis by (auto simp: toLowerChar_def Let_def)
qed

lemma ToLower_y: "ToLower val = ''y'' \<longleftrightarrow> val = ''y'' \<or> val = ''Y''"
  by (cases val) (auto simp: ToLower_def toLowerChar_y)

lemma yesOrNo_eq:
  "yesOrNo w = (stdin w (pos w) \<in> {'''', ''y'', ''Y''}, w\<lparr>pos := Suc (pos w)\<rparr>)"
  by (auto simp: yesOrNo_def ReadLine_def ToLower_y)

text \<open>
  C8. \<^verbatim>\<open>yesOrNo\<close> reads one line and answers yes exactly when the line is empty or its
  lower-case form is \<open>y\<close>, that is, when the line is empty, \<open>y\<close> or \<open>Y\<close>; every other line
  is a no.
\<close>

theorem yesOrNo_yes_iff:
  "(fst (yesOrNo w) \<longleftrightarrow> stdin w (pos w) = '''' \<or> ToLower (stdin w (pos w)) = ''y'')
   \<and> (fst (yesOrNo w) \<longleftrightarrow> stdin w (pos w) \<in> {'''', ''y'', ''Y''})
   \<and> snd (yesOrNo w) = w\<lparr>pos := Suc (pos w)\<rparr>"
  by (simp add: yesOrNo_eq ToLower_y)

section \<open>Confirming a deletion\<close>

text \<open>
  C10. When the setting \<open>interactive\<close> is anything but the boolean true, \<^verbatim>\<open>confirmDelete\<close>
  returns true and leaves the session as it was: nothing printed, nothing read. When it is
  true, one line is read and the result is true exactly when that line equals the expected
  value, character for character.
\<close>

theorem confirmDelete_modes:
  "(vals w cINTERACTIVE \<noteq> Some (VBool True) \<longrightarrow> confirmDelete name expectedValue w = (True, w))
   \<and> (vals w cINTERACTIVE = Some (VBool True) \<longrightarrow>
        (fst (confirmDelete name expectedValue w) \<longleftrightarrow> stdin w (pos w) = expectedValue)
        \<and> pos (snd (confirmDelete name expectedValue w)) = Suc (pos w))"
  by (simp add: confirmDelete_def isInteractive_def ReadLine_def emit_def Let_def)

theorem confirmDelete_modes_witness:
  "confirmDelete ''project key'' ''demo'' (emptyWorld\<lparr>vals := [cINTERACTIVE \<mapsto> VBool False]\<rparr>)
     = (True, emptyWorld\<lparr>vals := [cINTERACTIVE \<mapsto> VBool False]\<rparr>)
   \<and> \<not> fst (confirmDelete ''project key'' ''demo''
              (emptyWorld\<lparr>vals := [cINTERACTIVE \<mapsto> VBool True], stdin := (\<lambda>_. ''Demo'')\<rparr>))
   \<and> fst (confirmDelete ''project key'' ''demo''
              (emptyWorld\<lparr>vals := [cINTERACTIVE \<mapsto> VBool True], stdin := (\<lambda>_. ''demo'')\<rparr>))"
  using confirmDelete_modes [of "emptyWorld\<lparr>vals := [cINTERACTIVE \<mapsto> VBool False]\<rparr>"
          "''project key''" "''demo''"]
        confirmDelete_modes [of "emptyWorld\<lparr>vals := [cINTERACTIVE \<mapsto> VBool True],
          stdin := (\<lambda>_. ''Demo'')\<rparr>" "''project key''" "''demo''"]
        confirmDelete_modes [of "emptyWorld\<lparr>vals := [cINTERACTIVE \<mapsto> VBool True],
          stdin := (\<lambda>_. ''demo'')\<rparr>" "''project key''" "''demo''"]
  by (simp add: emptyWorld_def)

section \<open>Deleting a project\<close>

lemma apiLog_emit [simp]: "apiLog (emit x w) = apiLog w"
  by (simp add: emit_def)

lemma getProjectArg_apiLog:
  "\<exists>n. apiLog (snd (getProjectArg w)) = apiLog w @ replicate n GetProjects"
  unfolding getProjectArg_def listProjects_def listProjectKeys_def Let_def
  by (auto split: sum.splits list.splits prod.splits intro: exI[of _ 1] exI[of _ 2]
        simp: numeral_2_eq_2)

text \<open>
  C9. \<^verbatim>\<open>deleteProject\<close> never sends a deletion. When the lookup returns a project the
  command returns at once, in the world the lookup left; when the lookup returns nil the
  command panics on the nil pointer before it asks for confirmation. Either way the only
  requests the command adds to the log are listings of the projects.
\<close>

theorem deleteProject_never_deletes:
  "deleteProject w =
     (case getProjectArg w of
        (Panicked m, w1) \<Rightarrow> (Panicked m, w1)
      | (Returned (Some p), w1) \<Rightarrow> (Returned (), w1)
      | (Returned None, w1) \<Rightarrow>
          (Panicked ''invalid memory address or nil pointer dereference'', w1))
   \<and> (\<exists>n. apiLog (snd (deleteProject w)) = apiLog w @ replicate n GetProjects)"
proof
  show "deleteProject w =
     (case getProjectArg w of
        (Panicked m, w1) \<Rightarrow> (Panicked m, w1)
      | (Returned (Some p), w1) \<Rightarrow> (Returned (), w1)
      | (Returned None, w1) \<Rightarrow>
          (Panicked ''invalid memory address or nil pointer dereference'', w1))"
    by (simp add: deleteProject_def split: prod.splits outcome.splits option.splits)
  then have "snd (deleteProject w) = snd (getProjectArg w)"
    by (simp split: prod.splits outcome.splits option.splits)
  then show "\<exists>n. apiLog (snd (deleteProject w)) = apiLog w @ replicate n GetProjects"
    using getProjectArg_apiLog [of w] by simp
qed

section \<open>One pass of the loop\<close>

lemma attemptStep_ioOk:
  "ioOk a \<Longrightarrow>
   attemptStep CreatePatch original editorPath editor current patchOps a w =
     (case CreatePatch original (edit a current) of
        Inl e \<Rightarrow>
          (if stdin w (pos w) \<in> {'''', ''y'', ''Y''}
           then (Continue (edit a current) [],
                 (passWorld editorPath editor current a w)
                   \<lparr>pos := Suc (pos w),
                    stdout := stdout (passWorld editorPath editor current a w) @
                      (if e = ''Invalid JSON Document''
                       then [Print ''Unable to parse json. Make changes? [y]/n '']
                       else [Printf (''Unable to create patch: %s'' @ [CHR 0x0A]) [e],
                             Print ''Make changes? [y]/n ''])\<rparr>)
           else (Break [],
                 (passWorld editorPath editor current a w)
                   \<lparr>pos := Suc (pos w),
                    stdout := stdout (passWorld editorPath editor current a w) @
                      (if e = ''Invalid JSON Document''
                       then [Print ''Unable to parse json. Make changes? [y]/n '']
                       else [Printf (''Unable to create patch: %s'' @ [CHR 0x0A]) [e],
                             Print ''Make changes? [y]/n '']) @ [Println [''Edit aborted'']]\<rparr>))
      | Inr ops \<Rightarrow> (Break ops, passWorld editorPath editor current a w))"
  by (auto simp: ioOk_def attemptStep_def seedFile_def runEditor_def readBack_def validate_def
        passWorld_def yesOrNo_eq emit_def Let_def
        split: sum.splits option.splits prod.splits)

lemma passWorld_frame:
  "stdin (passWorld ep ed cur a w) = stdin w"
  "pos (passWorld ep ed cur a w) = pos w"
  "heap (passWorld ep ed cur a w) = heap w"
  "nextAddr (passWorld ep ed cur a w) = nextAddr w"
  by (simp_all add: passWorld_def split: sum.splits option.splits)

lemma passWorld_stdout:
  "\<exists>xs. stdout (passWorld ep ed cur a w) = stdout w @ xs \<and> Print ''Enter comment: '' \<notin> set xs"
  by (simp add: passWorld_def split: sum.splits option.splits)

lemma retry_step:
  assumes "ioOk a" and "CreatePatch original (edit a cur) = Inl e"
    and "stdin w (pos w) \<in> {'''', ''y'', ''Y''}"
  shows "fst (attemptStep CreatePatch original ep ed cur ops a w) = Continue (edit a cur) []"
    and "stdin (snd (attemptStep CreatePatch original ep ed cur ops a w)) = stdin w"
    and "pos (snd (attemptStep CreatePatch original ep ed cur ops a w)) = Suc (pos w)"
    and "heap (snd (attemptStep CreatePatch original ep ed cur ops a w)) = heap w"
    and "nextAddr (snd (attemptStep CreatePatch original ep ed cur ops a w)) = nextAddr w"
    and "\<exists>xs. stdout (snd (attemptStep CreatePatch original ep ed cur ops a w)) = stdout w @ xs
           \<and> Print ''Enter comment: '' \<notin> set xs"
proof -
  from passWorld_stdout [of ep ed cur a w] obtain xs where
    xs: "stdout (passWorld ep ed cur a w) = stdout w @ xs" "Print ''Enter comment: '' \<notin> set xs"
    by blast
  show "fst (attemptStep CreatePatch original ep ed cur ops a w) = Continue (edit a cur) []"
    using assms by (simp add: attemptStep_ioOk)
  show "stdin (snd (attemptStep CreatePatch original ep ed cur ops a w)) = stdin w"
    using assms by (simp add: attemptStep_ioOk passWorld_frame)
  show "pos (snd (attemptStep CreatePatch original ep ed cur ops a w)) = Suc (pos w)"
    using assms by (simp add: attemptStep_ioOk passWorld_frame)
  show "heap (snd (attemptStep CreatePatch original ep ed cur ops a w)) = heap w"
    using assms by (simp add: attemptStep_ioOk passWorld_frame)
  show "nextAddr (snd (attemptStep CreatePatch original ep ed cur ops a w)) = nextAddr w"
    using assms by (simp add: attemptStep_ioOk passWorld_frame)
  show "\<exists>xs. stdout (snd (attemptStep CreatePatch original ep ed cur ops a w)) = stdout w @ xs
           \<and> Print ''Enter comment: '' \<notin> set xs"
    using assms xs by (simp add: attemptStep_ioOk)
qed

section \<open>Runs of retried edits\<close>

lemma retried_loop:
  "retried CreatePatch original (stdin w) (pos w) cur pre \<Longrightarrow>
   editLoop CreatePatch original ep ed cur [] (pre @ rest) w =
     editLoop CreatePatch original ep ed (seedAfter cur pre) [] rest
       (worldAfter CreatePatch original ep ed cur pre w)"
proof (induction pre arbitrary: cur w)
  case Nil
  then show ?case by simp
next
  case (Cons a pre)
  from Cons.prems obtain e where
    a: "ioOk a" "CreatePatch original (edit a cur) = Inl e" "stdin w (pos w) \<in> {'''', ''y'', ''Y''}"
    and r: "retried CreatePatch original (stdin w) (Suc (pos w)) (edit a cur) pre"
    by (auto split: sum.splits)
  let ?s = "attemptStep CreatePatch original ep ed cur [] a w"
  obtain w' where s: "?s = (Continue (edit a cur) [], w')"
    using retry_step(1) [where CreatePatch=CreatePatch and ep=ep and ed=ed and ops="[]", OF a]
    by (cases ?s) auto
  have "retried CreatePatch original (stdin w') (pos w') (edit a cur) pre"
    using r s retry_step(2,3) [where CreatePatch=CreatePatch and ep=ep and ed=ed and ops="[]", OF a]
    by simp
  from Cons.IH [OF this] have
    "editLoop CreatePatch original ep ed (edit a cur) [] (pre @ rest) w' =
     editLoop CreatePatch original ep ed (seedAfter (edit a cur) pre) [] rest
       (worldAfter CreatePatch original ep ed (edit a cur) pre w')" .
  then show ?case using s by simp
qed

lemma retried_world:
  "retried CreatePatch original (stdin w) (pos w) cur pre \<Longrightarrow>
   stdin (worldAfter CreatePatch original ep ed cur pre w) = stdin w
   \<and> pos (worldAfter CreatePatch original ep ed cur pre w) = pos w + length pre
   \<and> heap (worldAfter CreatePatch original ep ed cur pre w) = heap w
   \<and> nextAddr (worldAfter CreatePatch original ep ed cur pre w) = nextAddr w
   \<and> (\<exists>xs. stdout (worldAfter CreatePatch original ep ed cur pre w) = stdout w @ xs
         \<and> Print ''Enter comment: '' \<notin> set xs)"
proof (induction pre arbitrary: cur w)
  case Nil
  then show ?case by simp
next
  case (Cons a pre)
  from Cons.prems obtain e where
    a: "ioOk a" "CreatePatch original (edit a cur) = Inl e" "stdin w (pos w) \<in> {'''', ''y'', ''Y''}"
    and r: "retried CreatePatch original (stdin w) (Suc (pos w)) (edit a cur) pre"
    by (auto split: sum.splits)
  let ?w = "snd (attemptStep CreatePatch original ep ed cur [] a w)"
  note st = retry_step [where CreatePatch=CreatePatch and ep=ep and ed=ed and ops="[]", OF a]
  have "retried CreatePatch original (stdin ?w) (pos ?w) (edit a cur) pre"
    using r st(2,3) by simp
  from Cons.IH [OF this, of ] have ih:
    "stdin (worldAfter CreatePatch original ep ed (edit a cur) pre ?w) = stdin ?w"
    "pos (worldAfter CreatePatch original ep ed (edit a cur) pre ?w) = pos ?w + length pre"
    "heap (worldAfter CreatePatch original ep ed (edit a cur) pre ?w) = heap ?w"
    "nextAddr (worldAfter CreatePatch original ep ed (edit a cur) pre ?w) = nextAddr ?w"
    "\<exists>xs. stdout (worldAfter CreatePatch original ep ed (edit a cur) pre ?w) = stdout ?w @ xs
         \<and> Print ''Enter comment: '' \<notin> set xs"
    by blast+
  from ih(5) obtain ys where ys:
    "stdout (worldAfter CreatePatch original ep ed (edit a cur) pre ?w) = stdout ?w @ ys"
    "Print ''Enter comment: '' \<notin> set ys" by blast
  from st(6) obtain xs where xs: "stdout ?w = stdout w @ xs" "Print ''Enter comment: '' \<notin> set xs"
    by blast
  have "stdout (worldAfter CreatePatch original ep ed (edit a cur) pre ?w) = stdout w @ (xs @ ys)
        \<and> Print ''Enter comment: '' \<notin> set (xs @ ys)"
    using xs ys by simp
  then have "\<exists>zs. stdout (worldAfter CreatePatch original ep ed (edit a cur) pre ?w) = stdout w @ zs
        \<and> Print ''Enter comment: '' \<notin> set zs" by blast
  then show ?case using ih(1-4) st(2-5) by simp
qed

section \<open>After the loop\<close>

lemma rangeOps_eq:
  "rangeOps opAddr ops acc w =
     (acc @ map (opAt opAddr) ops,
      if ops = [] then w else w\<lparr>heap := (heap w)(opAddr \<mapsto> last ops)\<rparr>)"
  by (induction ops arbitrary: acc w) (simp_all add: opAt_def)

lemma afterLoop_nonempty:
  "ops \<noteq> [] \<Longrightarrow>
   afterLoop ops w =
     (Return (Some \<lparr>Comment = stdin w (pos w), Patch = map (opAt (nextAddr w)) ops\<rparr>) None,
      w\<lparr>pos := Suc (pos w), stdout := stdout w @ [Print ''Enter comment: ''],
        heap := (heap w)(nextAddr w \<mapsto> last ops), nextAddr := Suc (nextAddr w)\<rparr>)"
  by (simp add: afterLoop_def rangeOps_eq ReadLine_def emit_def Let_def)

lemma afterLoop_empty: "afterLoop [] w = (Return None None, w)"
  by (simp add: afterLoop_def)

lemma editFile_loop:
  "vals w cEDITOR = Some (VString editor) \<Longrightarrow> commandV w editor = Inr raw \<Longrightarrow>
   editFile CreatePatch original script w =
     editLoop CreatePatch original (TrimSpace raw) editor original [] script w"
  by (simp add: editFile_def)

section \<open>Facts about the examples\<close>

lemma ioOk_cleanAttempt: "ioOk (cleanAttempt name saved)"
  by (simp add: ioOk_def cleanAttempt_def)

lemma edit_cleanAttempt [simp]: "edit (cleanAttempt name saved) s = saved"
  by (simp add: cleanAttempt_def)

lemma editorWorld_setup:
  "vals (editorWorld typed) cEDITOR = Some (VString ''vi'')"
  "commandV (editorWorld typed) ''vi'' = Inr (''/usr/bin/vi'' @ [CHR 0x0A])"
  "pos (editorWorld typed) = 0"
  "stdin (editorWorld typed) n = (if n < length typed then typed ! n else [])"
  "nextAddr (editorWorld typed) = 0"
  "heap (editorWorld typed) = Map.empty"
  "files (editorWorld typed) = Map.empty"
  "stdout (editorWorld typed) = []"
  "spawned (editorWorld typed) = []"
  by (simp_all add: editorWorld_def emptyWorld_def)

lemma editFile_editorWorld:
  "editFile CreatePatch original script (editorWorld typed) =
     editLoop CreatePatch original (TrimSpace (''/usr/bin/vi'' @ [CHR 0x0A])) ''vi'' original []
       script (editorWorld typed)"
  by (simp add: editFile_loop [OF editorWorld_setup(1,2)])

lemma diffDemo_values:
  "diffDemo docOriginal docBroken = Inl ''Invalid JSON Document''"
  "diffDemo docOriginal docSpaced = Inr []"
  "diffDemo docOriginal docOneChange =
     Inr [\<lparr>Operation = ''replace'', jPath = ''/a'', jValue = JNum 3\<rparr>]"
  "diffDemo docOriginal docTwoChanges =
     Inr [\<lparr>Operation = ''replace'', jPath = ''/a'', jValue = JNum 3\<rparr>,
          \<lparr>Operation = ''replace'', jPath = ''/b'', jValue = JNum 4\<rparr>]"
  by (simp_all add: diffDemo_def docOriginal_def docBroken_def docSpaced_def docOneChange_def
        docTwoChanges_def)

text \<open>One invalid edit, answered with \<open>y\<close>, is a run of retried edits.\<close>

lemma retried_example:
  "retried diffDemo docOriginal (stdin (editorWorld (''y'' # typed))) (pos (editorWorld (''y'' # typed)))
     docOriginal [cleanAttempt ''/tmp/ldc1'' docBroken]"
  by (simp add: ioOk_cleanAttempt diffDemo_values editorWorld_setup)

section \<open>The diff of a value with itself\<close>








text \<open>The two examples of section 8 of the specification.\<close>

lemma engine_spec_examples:
  \<open>diffEngine ''{"name":"a","key":"k"}'' ''{"name":"b","key":"k"}'' =
     Inr [\<lparr>Operation = ''replace'', jPath = ''/name'', jValue = JStr ''b''\<rparr>]\<close>
  \<open>diffEngine ''{"tags":[]}'' ''{"tags":["x"]}'' =
     Inr [\<lparr>Operation = ''add'', jPath = ''/tags/0'', jValue = JStr ''x''\<rparr>]\<close>
  by (simp_all add: diffEngine_def parseDocument_def skipWs_def isWs_def parseNumber_def
        isDigit_def digitsVal_def Let_def child_def escapeKey_def char_of_eq_iff)

section \<open>Fatal failures of the editor\<close>

lemma attemptStep_start_fails:
  "tempFile a = Inr name \<Longrightarrow> writeErr a = None \<Longrightarrow> closeErr a = None \<Longrightarrow> startErr a = Some e \<Longrightarrow>
   attemptStep CreatePatch original ep ed cur ops a w =
     (ReturnErr e, w\<lparr>files := (files w)(name \<mapsto> cur)\<rparr>)"
  by (simp add: attemptStep_def seedFile_def runEditor_def Let_def)

lemma attemptStep_wait_fails:
  "tempFile a = Inr name \<Longrightarrow> writeErr a = None \<Longrightarrow> closeErr a = None \<Longrightarrow> startErr a = None \<Longrightarrow>
   waitErr a = Some e \<Longrightarrow>
   attemptStep CreatePatch original ep ed cur ops a w =
     (ReturnErr e,
      w\<lparr>stdout := stdout w @ [Err e], files := (files w)(name \<mapsto> cur),
        spawned := spawned w @ [(ep, [ed, name])]\<rparr>)"
  by (simp add: attemptStep_def seedFile_def runEditor_def emit_def Let_def)

text \<open>
  C7. When the lookup of the editor fails, \<^verbatim>\<open>editFile\<close> returns that error and has created
  no file and started no process. When, in some pass of the loop, the editor cannot be
  started or waiting for it fails, \<^verbatim>\<open>editFile\<close> returns that error at once: no prompt is
  printed in that pass and no line is read beyond the answers given in earlier passes.
\<close>

theorem editor_failures_are_fatal:
  assumes "vals w cEDITOR = Some (VString editor)"
  shows
    "(commandV w editor = Inl e \<longrightarrow>
        (\<exists>w'. editFile CreatePatch original script w = Some (Return None (Some e), w')
           \<and> files w' = files w \<and> spawned w' = spawned w \<and> pos w' = pos w))
     \<and> (commandV w editor = Inr raw
          \<and> retried CreatePatch original (stdin w) (pos w) original pre
          \<and> tempFile a = Inr name \<and> writeErr a = None \<and> closeErr a = None
          \<and> (startErr a = Some e \<or> startErr a = None \<and> waitErr a = Some e) \<longrightarrow>
        (\<exists>w'. editFile CreatePatch original (pre @ a # rest) w = Some (Return None (Some e), w')
           \<and> pos w' = pos w + length pre
           \<and> stdout w' =
               stdout (worldAfter CreatePatch original (TrimSpace raw) editor original pre w)
               @ (if startErr a = None then [Err e] else [])))"
proof (intro conjI impI)
  assume "commandV w editor = Inl e"
  with assms show "\<exists>w'. editFile CreatePatch original script w = Some (Return None (Some e), w')
           \<and> files w' = files w \<and> spawned w' = spawned w \<and> pos w' = pos w"
    by (simp add: editFile_def emit_def)
next
  assume h: "commandV w editor = Inr raw
          \<and> retried CreatePatch original (stdin w) (pos w) original pre
          \<and> tempFile a = Inr name \<and> writeErr a = None \<and> closeErr a = None
          \<and> (startErr a = Some e \<or> startErr a = None \<and> waitErr a = Some e)"
  let ?ep = "TrimSpace raw"
  let ?w = "worldAfter CreatePatch original ?ep editor original pre w"
  let ?cur = "seedAfter original pre"
  have loop: "editFile CreatePatch original (pre @ a # rest) w =
      editLoop CreatePatch original ?ep editor ?cur [] (a # rest) ?w"
    using assms h by (simp add: editFile_loop retried_loop)
  have p: "pos ?w = pos w + length pre"
    using h retried_world [of CreatePatch original w original pre ?ep editor] by simp
  from h consider "startErr a = Some e" | "startErr a = None" "waitErr a = Some e" by auto
  then show "\<exists>w'. editFile CreatePatch original (pre @ a # rest) w = Some (Return None (Some e), w')
           \<and> pos w' = pos w + length pre
           \<and> stdout w' = stdout ?w @ (if startErr a = None then [Err e] else [])"
  proof cases
    case 1
    then show ?thesis
      using h p by (simp add: loop attemptStep_start_fails [where name=name])
  next
    case 2
    then show ?thesis
      using h p by (simp add: loop attemptStep_wait_fails [where name=name])
  qed
qed

text \<open>The lookup fails; the editor cannot be started; waiting for the editor fails.\<close>

theorem editor_failures_are_fatal_witness:
  "(\<exists>w'. editFile diffDemo docOriginal [] (emptyWorld\<lparr>vals := [cEDITOR \<mapsto> VString ''vi'']\<rparr>) =
            Some (Return None (Some ''exit status 1''), w')
         \<and> files w' = Map.empty \<and> spawned w' = [] \<and> pos w' = 0)
   \<and> (\<exists>w'. editFile diffDemo docOriginal [startFails] (editorWorld []) =
            Some (Return None (Some ''fork/exec /usr/bin/vi: permission denied''), w')
         \<and> pos w' = 0 \<and> stdout w' = [])
   \<and> (\<exists>w'. editFile diffDemo docOriginal [waitFails] (editorWorld []) =
            Some (Return None (Some ''wait: no child processes''), w')
         \<and> pos w' = 0 \<and> stdout w' = [Err ''wait: no child processes''])"
proof (intro conjI)
  show "\<exists>w'. editFile diffDemo docOriginal [] (emptyWorld\<lparr>vals := [cEDITOR \<mapsto> VString ''vi'']\<rparr>) =
            Some (Return None (Some ''exit status 1''), w')
         \<and> files w' = Map.empty \<and> spawned w' = [] \<and> pos w' = 0"
    using editor_failures_are_fatal [where w="emptyWorld\<lparr>vals := [cEDITOR \<mapsto> VString ''vi'']\<rparr>"
        and editor="''vi''" and e="''exit status 1''" and CreatePatch=diffDemo
        and original=docOriginal and script="[]"]
    by (simp add: emptyWorld_def)
  show "\<exists>w'. editFile diffDemo docOriginal [startFails] (editorWorld []) =
            Some (Return None (Some ''fork/exec /usr/bin/vi: permission denied''), w')
         \<and> pos w' = 0 \<and> stdout w' = []"
    using editor_failures_are_fatal [where w="editorWorld []" and editor="''vi''"
        and e="''fork/exec /usr/bin/vi: permission denied''" and CreatePatch=diffDemo
        and original=docOriginal and pre="[]" and a=startFails and rest="[]"
        and raw="''/usr/bin/vi'' @ [CHR 0x0A]" and name="''/tmp/ldc1''"]
    by (simp add: editorWorld_setup startFails_def cleanAttempt_def)
  show "\<exists>w'. editFile diffDemo docOriginal [waitFails] (editorWorld []) =
            Some (Return None (Some ''wait: no child processes''), w')
         \<and> pos w' = 0 \<and> stdout w' = [Err ''wait: no child processes'']"
    using editor_failures_are_fatal [where w="editorWorld []" and editor="''vi''"
        and e="''wait: no child processes''" and CreatePatch=diffDemo
        and original=docOriginal and pre="[]" and a=waitFails and rest="[]"
        and raw="''/usr/bin/vi'' @ [CHR 0x0A]" and name="''/tmp/ldc1''"]
    by (simp add: editorWorld_setup waitFails_def cleanAttempt_def)
qed

section \<open>Valid edits\<close>

lemma valid_step:
  "ioOk a \<Longrightarrow> CreatePatch original (edit a cur) = Inr ops \<Longrightarrow>
   attemptStep CreatePatch original ep ed cur ops0 a w = (Break ops, passWorld ep ed cur a w)"
  by (simp add: attemptStep_ioOk)




lemma changed_edit_result:
  assumes "vals w cEDITOR = Some (VString editor)" and "commandV w editor = Inr raw"
    and "retried CreatePatch original (stdin w) (pos w) original pre"
    and "ioOk a"
    and "CreatePatch original (edit a (seedAfter original pre)) = Inr ops" and "ops \<noteq> []"
  shows "\<exists>w'. editFile CreatePatch original (pre @ a # rest) w =
            Some (Return (Some \<lparr>Comment = stdin w (pos w + length pre),
                                 Patch = map (opAt (nextAddr w)) ops\<rparr>) None, w')
           \<and> heap w' = (heap w)(nextAddr w \<mapsto> last ops)"
proof -
  let ?ep = "TrimSpace raw"
  let ?w = "worldAfter CreatePatch original ?ep editor original pre w"
  let ?cur = "seedAfter original pre"
  let ?w' = "passWorld ?ep editor ?cur a ?w"
  have "editFile CreatePatch original (pre @ a # rest) w =
      editLoop CreatePatch original ?ep editor ?cur [] (a # rest) ?w"
    using assms by (simp add: editFile_loop retried_loop)
  then have r: "editFile CreatePatch original (pre @ a # rest) w = Some (afterLoop ops ?w')"
    using assms(4,5) by (simp add: valid_step)
  from retried_world [OF assms(3), of ?ep editor] have
    w: "pos ?w = pos w + length pre" "stdin ?w = stdin w" "heap ?w = heap w"
       "nextAddr ?w = nextAddr w"
    by blast+
  show ?thesis
    using assms(6) w by (simp add: r afterLoop_nonempty passWorld_frame)
qed

lemma wire_opAt:
  "heap w' = h(p \<mapsto> x) \<Longrightarrow>
   wire w' \<lparr>Comment = c, Patch = map (opAt p) ops\<rparr> =
     map (\<lambda>y. (Operation y, jPath y, Some (jValue x))) ops"
  by (simp add: wire_def opAt_def)

text \<open>
  C4, as the code has it. The diff is taken between the original and the text of the
  latest edit. After any number of invalid edits that the user retries, a valid edit with
  a non-empty diff gives the patch made from the answer of the library for the original
  and that last text, with the next line typed as the comment. A session in which the
  same text is produced in the first pass, and in which the retry answers were never
  typed, returns the same value with the same contents behind its pointers, provided the
  library, whose answers in that session are \<open>CreatePatch'\<close>, lists the same operations
  in the same order there.
\<close>

theorem retries_do_not_change_patch:
  assumes "vals w cEDITOR = Some (VString editor)" and "commandV w editor = Inr raw"
    and "retried CreatePatch original (stdin w) (pos w) original pre"
    and "ioOk a" and "ioOk b"
    and "CreatePatch original (edit a (seedAfter original pre)) = Inr ops" and "ops \<noteq> []"
    and "edit b original = edit a (seedAfter original pre)"
    and "CreatePatch' original (edit b original) = Inr ops"
  shows "\<exists>w1 w2 pc.
           editFile CreatePatch original (pre @ a # rest) w = Some (Return (Some pc) None, w1)
           \<and> editFile CreatePatch' original (b # rest') (w\<lparr>pos := pos w + length pre\<rparr>) =
               Some (Return (Some pc) None, w2)
           \<and> wire w1 pc = wire w2 pc
           \<and> Patch pc = map (opAt (nextAddr w)) ops
           \<and> Comment pc = stdin w (pos w + length pre)"
proof -
  let ?v = "w\<lparr>pos := pos w + length pre\<rparr>"
  let ?pc = "\<lparr>Comment = stdin w (pos w + length pre), Patch = map (opAt (nextAddr w)) ops\<rparr>"
  from changed_edit_result [OF assms(1,2,3,4,6,7), of rest] obtain w1 where
    w1: "editFile CreatePatch original (pre @ a # rest) w = Some (Return (Some ?pc) None, w1)"
        "heap w1 = (heap w)(nextAddr w \<mapsto> last ops)" by blast
  have v: "vals ?v cEDITOR = Some (VString editor)" "commandV ?v editor = Inr raw"
    "retried CreatePatch' original (stdin ?v) (pos ?v) original []"
    "CreatePatch' original (edit b (seedAfter original [])) = Inr ops"
    using assms by simp_all
  from changed_edit_result [where CreatePatch=CreatePatch' and w="?v" and editor=editor
      and raw=raw and original=original and pre="[]" and a=b and ops=ops and rest=rest',
      OF v(1,2,3) assms(5) v(4) assms(7)] obtain w2 where
    w2: "editFile CreatePatch' original (b # rest') ?v = Some (Return (Some ?pc) None, w2)"
        "heap w2 = (heap w)(nextAddr w \<mapsto> last ops)" by auto
  have "wire w1 ?pc = wire w2 ?pc"
    using w1(2) w2(2) by (simp add: wire_opAt)
  with w1(1) w2(1) show ?thesis by simp
qed

text \<open>An invalid edit, retried, then an edit that changes two members.\<close>

theorem retries_do_not_change_patch_witness:
  "\<exists>w1 w2 pc.
     editFile diffDemo docOriginal
       [cleanAttempt ''/tmp/ldc1'' docBroken, cleanAttempt ''/tmp/ldc2'' docTwoChanges]
       (editorWorld [''y'', ''fixed typo'']) = Some (Return (Some pc) None, w1)
     \<and> editFile diffDemo docOriginal [cleanAttempt ''/tmp/ldc1'' docTwoChanges]
         ((editorWorld [''y'', ''fixed typo''])\<lparr>pos := 1\<rparr>) = Some (Return (Some pc) None, w2)
     \<and> wire w1 pc = wire w2 pc
     \<and> map Path (Patch pc) = [''/a'', ''/b'']
     \<and> Comment pc = ''fixed typo''"
proof -
  let ?w = "editorWorld [''y'', ''fixed typo'']"
  let ?ops = "[\<lparr>Operation = ''replace'', jPath = ''/a'', jValue = JNum 3\<rparr>,
               \<lparr>Operation = ''replace'', jPath = ''/b'', jValue = JNum 4\<rparr>]"
  let ?pre = "[cleanAttempt ''/tmp/ldc1'' docBroken]"
  have d: "diffDemo docOriginal
             (edit (cleanAttempt ''/tmp/ldc2'' docTwoChanges) (seedAfter docOriginal ?pre)) = Inr ?ops"
    by (simp add: diffDemo_values)
  have n: "?ops \<noteq> []" by simp
  have e: "edit (cleanAttempt ''/tmp/ldc1'' docTwoChanges) docOriginal =
           edit (cleanAttempt ''/tmp/ldc2'' docTwoChanges) (seedAfter docOriginal ?pre)"
    by simp
  have d': "diffDemo docOriginal (edit (cleanAttempt ''/tmp/ldc1'' docTwoChanges) docOriginal) =
            Inr ?ops"
    by (simp add: diffDemo_values)
  from retries_do_not_change_patch [where w="?w" and editor="''vi''"
      and raw="''/usr/bin/vi'' @ [CHR 0x0A]" and CreatePatch=diffDemo and CreatePatch'=diffDemo
      and original=docOriginal and pre="?pre" and a="cleanAttempt ''/tmp/ldc2'' docTwoChanges"
      and b="cleanAttempt ''/tmp/ldc1'' docTwoChanges" and rest="[]" and rest'="[]" and ops="?ops",
      OF editorWorld_setup(1,2) retried_example ioOk_cleanAttempt ioOk_cleanAttempt d n e d']
  obtain w1 w2 pc where
    "editFile diffDemo docOriginal (?pre @ [cleanAttempt ''/tmp/ldc2'' docTwoChanges]) ?w =
       Some (Return (Some pc) None, w1)"
    "editFile diffDemo docOriginal [cleanAttempt ''/tmp/ldc1'' docTwoChanges]
       (?w\<lparr>pos := pos ?w + length ?pre\<rparr>) = Some (Return (Some pc) None, w2)"
    "wire w1 pc = wire w2 pc"
    "Patch pc = map (opAt (nextAddr ?w)) ?ops"
    "Comment pc = stdin ?w (pos ?w + length ?pre)"
    by blast
  then show ?thesis
    by (intro exI [of _ w1] exI [of _ w2] exI [of _ pc]) (simp add: editorWorld_setup opAt_def)
qed

text \<open>
  C4 as the specification states it fails: the library may list the operations of the
  same two documents in either order. Here the session with a retried invalid edit gets
  them as \<open>/a\<close>, \<open>/b\<close> and the session that produces the same text in its first pass gets
  them as \<open>/b\<close>, \<open>/a\<close>: the two returned patches differ, and so do the values behind
  their pointers.
\<close>

theorem library_order_changes_patch_counterexample:
  "map_option (\<lambda>(r, w'). case r of Return (Some pc) None \<Rightarrow> (map Path (Patch pc), wire w' pc)
                            | _ \<Rightarrow> ([], []))
     (editFile diffDemo docOriginal
        [cleanAttempt ''/tmp/ldc1'' docBroken, cleanAttempt ''/tmp/ldc2'' docTwoChanges]
        (editorWorld [''y'', ''fixed typo''])) =
   Some ([''/a'', ''/b''],
         [(''replace'', ''/a'', Some (JNum 4)), (''replace'', ''/b'', Some (JNum 4))])
   \<and> map_option (\<lambda>(r, w'). case r of Return (Some pc) None \<Rightarrow> (map Path (Patch pc), wire w' pc)
                            | _ \<Rightarrow> ([], []))
       (editFile diffDemoSwapped docOriginal [cleanAttempt ''/tmp/ldc1'' docTwoChanges]
          (editorWorld [''fixed typo''])) =
     Some ([''/b'', ''/a''],
           [(''replace'', ''/b'', Some (JNum 3)), (''replace'', ''/a'', Some (JNum 3))])
   \<and> map_option fst
       (editFile diffDemo docOriginal
          [cleanAttempt ''/tmp/ldc1'' docBroken, cleanAttempt ''/tmp/ldc2'' docTwoChanges]
          (editorWorld [''y'', ''fixed typo''])) \<noteq>
     map_option fst
       (editFile diffDemoSwapped docOriginal [cleanAttempt ''/tmp/ldc1'' docTwoChanges]
          (editorWorld [''fixed typo'']))"
proof -
  have sw: "diffDemoSwapped docOriginal docTwoChanges =
      Inr [\<lparr>Operation = ''replace'', jPath = ''/b'', jValue = JNum 4\<rparr>,
           \<lparr>Operation = ''replace'', jPath = ''/a'', jValue = JNum 3\<rparr>]"
    by (simp add: diffDemoSwapped_def)
  have a: "editFile diffDemo docOriginal
        [cleanAttempt ''/tmp/ldc1'' docBroken, cleanAttempt ''/tmp/ldc2'' docTwoChanges]
        (editorWorld [''y'', ''fixed typo'']) =
      Some (afterLoop [\<lparr>Operation = ''replace'', jPath = ''/a'', jValue = JNum 3\<rparr>,
                       \<lparr>Operation = ''replace'', jPath = ''/b'', jValue = JNum 4\<rparr>]
              (passWorld (TrimSpace (''/usr/bin/vi'' @ [CHR 0x0A])) ''vi'' docBroken
                 (cleanAttempt ''/tmp/ldc2'' docTwoChanges)
                 (snd (attemptStep diffDemo docOriginal (TrimSpace (''/usr/bin/vi'' @ [CHR 0x0A]))
                         ''vi'' docOriginal [] (cleanAttempt ''/tmp/ldc1'' docBroken)
                         (editorWorld [''y'', ''fixed typo''])))))"
    by (simp add: editFile_editorWorld attemptStep_ioOk ioOk_cleanAttempt diffDemo_values
          editorWorld_setup passWorld_frame)
  have b: "editFile diffDemoSwapped docOriginal [cleanAttempt ''/tmp/ldc1'' docTwoChanges]
        (editorWorld [''fixed typo'']) =
      Some (afterLoop [\<lparr>Operation = ''replace'', jPath = ''/b'', jValue = JNum 4\<rparr>,
                       \<lparr>Operation = ''replace'', jPath = ''/a'', jValue = JNum 3\<rparr>]
              (passWorld (TrimSpace (''/usr/bin/vi'' @ [CHR 0x0A])) ''vi'' docOriginal
                 (cleanAttempt ''/tmp/ldc1'' docTwoChanges) (editorWorld [''fixed typo''])))"
    by (simp add: editFile_editorWorld attemptStep_ioOk ioOk_cleanAttempt sw)
  show ?thesis
    by (simp add: a b afterLoop_nonempty passWorld_frame wire_def opAt_def editorWorld_setup
          attemptStep_ioOk ioOk_cleanAttempt diffDemo_values)
qed

section \<open>Declining to retry\<close>

text \<open>
  C1, as the code has it. After any number of retried edits, when the diff fails and the
  line typed at the prompt is not empty and its lower-case form is not \<open>y\<close>, \<^verbatim>\<open>editFile\<close>
  prints \<open>Edit aborted\<close> and returns neither a patch nor an error, which is also what it
  returns when nothing changed; no comment prompt is printed.
\<close>

theorem decline_retry_returns_nothing:
  assumes "vals w cEDITOR = Some (VString editor)" and "commandV w editor = Inr raw"
    and "retried CreatePatch original (stdin w) (pos w) original pre"
    and "ioOk a"
    and "CreatePatch original (edit a (seedAfter original pre)) = Inl e"
    and "stdin w (pos w + length pre) \<noteq> ''''"
    and "ToLower (stdin w (pos w + length pre)) \<noteq> ''y''"
  shows "\<exists>w'. editFile CreatePatch original (pre @ a # rest) w = Some (Return None None, w')
           \<and> pos w' = pos w + length pre + 1
           \<and> (\<exists>xs. stdout w' = stdout w @ xs @ [Println [''Edit aborted'']]
                 \<and> Print ''Enter comment: '' \<notin> set xs)"
proof -
  let ?ep = "TrimSpace raw"
  let ?w = "worldAfter CreatePatch original ?ep editor original pre w"
  let ?cur = "seedAfter original pre"
  let ?s = "attemptStep CreatePatch original ?ep editor ?cur [] a ?w"
  from retried_world [OF assms(3), of ?ep editor] obtain xs where
    w: "pos ?w = pos w + length pre" "stdin ?w = stdin w" "stdout ?w = stdout w @ xs"
       "Print ''Enter comment: '' \<notin> set xs"
    by blast
  from passWorld_stdout [of ?ep editor ?cur a ?w] obtain ys where
    ys: "stdout (passWorld ?ep editor ?cur a ?w) = stdout ?w @ ys"
        "Print ''Enter comment: '' \<notin> set ys" by blast
  have no: "stdin ?w (pos ?w) \<notin> {'''', ''y'', ''Y''}"
    using assms(6,7) w by (simp add: ToLower_y)
  obtain zs where s: "fst ?s = Break []" "pos (snd ?s) = Suc (pos ?w)"
      "stdout (snd ?s) = stdout w @ zs @ [Println [''Edit aborted'']]"
      "Print ''Enter comment: '' \<notin> set zs"
  proof (cases "e = ''Invalid JSON Document''")
    case True
    show ?thesis
      by (rule that [of "xs @ ys @ [Print ''Unable to parse json. Make changes? [y]/n '']"])
         (use assms(4,5) no w ys True in \<open>simp_all add: attemptStep_ioOk\<close>)
  next
    case False
    show ?thesis
      by (rule that [of "xs @ ys @ [Printf (''Unable to create patch: %s'' @ [CHR 0x0A]) [e],
                             Print ''Make changes? [y]/n '']"])
         (use assms(4,5) no w ys False in \<open>simp_all add: attemptStep_ioOk\<close>)
  qed
  have "editFile CreatePatch original (pre @ a # rest) w =
      editLoop CreatePatch original ?ep editor ?cur [] (a # rest) ?w"
    using assms by (simp add: editFile_loop retried_loop)
  also have "\<dots> = Some (Return None None, snd ?s)"
    using s(1) by (cases ?s) (simp add: afterLoop_empty)
  finally show ?thesis using s w by auto
qed

text \<open>An invalid edit, retried, then another invalid edit, answered with \<open>n\<close>.\<close>

theorem decline_retry_returns_nothing_witness:
  "\<exists>w'. editFile diffDemo docOriginal
           [cleanAttempt ''/tmp/ldc1'' docBroken, cleanAttempt ''/tmp/ldc2'' docBroken]
           (editorWorld [''y'', ''n'']) = Some (Return None None, w')
        \<and> pos w' = 2
        \<and> (\<exists>xs. stdout w' = xs @ [Println [''Edit aborted'']]
              \<and> Print ''Enter comment: '' \<notin> set xs)"
proof -
  let ?w = "editorWorld [''y'', ''n'']"
  let ?pre = "[cleanAttempt ''/tmp/ldc1'' docBroken]"
  have d: "diffDemo docOriginal
             (edit (cleanAttempt ''/tmp/ldc2'' docBroken) (seedAfter docOriginal ?pre)) =
           Inl ''Invalid JSON Document''"
    by (simp add: diffDemo_values)
  have n1: "stdin ?w (pos ?w + length ?pre) \<noteq> ''''"
    by (simp add: editorWorld_setup)
  have n2: "ToLower (stdin ?w (pos ?w + length ?pre)) \<noteq> ''y''"
    by (simp add: editorWorld_setup ToLower_y)
  from decline_retry_returns_nothing [where w="?w" and editor="''vi''"
      and raw="''/usr/bin/vi'' @ [CHR 0x0A]" and CreatePatch=diffDemo and original=docOriginal
      and pre="?pre" and a="cleanAttempt ''/tmp/ldc2'' docBroken"
      and rest="[]" and e="''Invalid JSON Document''",
      OF editorWorld_setup(1,2) retried_example ioOk_cleanAttempt d n1 n2]
  obtain w' xs where
    "editFile diffDemo docOriginal (?pre @ [cleanAttempt ''/tmp/ldc2'' docBroken]) ?w =
       Some (Return None None, w')"
    "pos w' = pos ?w + length ?pre + 1"
    "stdout w' = stdout ?w @ xs @ [Println [''Edit aborted'']]"
    "Print ''Enter comment: '' \<notin> set xs"
    by blast
  then show ?thesis
    by (intro exI [of _ w']) (simp add: editorWorld_setup)
qed

text \<open>
  C1 as the specification states it fails: after an invalid edit answered with \<open>n\<close> the
  function returns no error, and it returns just what it returns for an edit that changes
  nothing.
\<close>

theorem decline_retry_counterexample:
  "map_option fst (editFile diffDemo docOriginal [cleanAttempt ''/tmp/ldc1'' docBroken]
                     (editorWorld [''n''])) = Some (Return None None)
   \<and> map_option fst (editFile diffDemo docOriginal [cleanAttempt ''/tmp/ldc1'' docSpaced]
                     (editorWorld [])) = Some (Return None None)
   \<and> Return None None \<noteq> Return None (Some errAborted)"
  by (simp add: editFile_editorWorld attemptStep_ioOk ioOk_cleanAttempt diffDemo_values
        editorWorld_setup afterLoop_empty)

section \<open>The scratch file\<close>

text \<open>
  The removal of line 130 comes after the file has been read back. A pass that gets there
  and whose removal succeeds leaves no scratch file.
\<close>

lemma passWorld_removes:
  "tempFile a = Inr name \<Longrightarrow> removeErr a = None \<Longrightarrow> files (passWorld ep ed cur a w) name = None"
  by (simp add: passWorld_def)

text \<open>
  C2, at an input where the code departs from it. The editor cannot be started:
  \<^verbatim>\<open>editFile\<close> returns the error of \<^verbatim>\<open>os.StartProcess\<close>, and the scratch file created in
  that pass still exists and holds the original document. The returns of lines 107, 111,
  116, 120 and 125 all leave the loop before the removal.
\<close>

theorem start_failure_leaves_scratch_file:
  "map_option (\<lambda>(r, w'). (r, files w' ''/tmp/ldc1''))
     (editFile diffDemo docOriginal [startFails] (editorWorld [])) =
   Some (Return None (Some ''fork/exec /usr/bin/vi: permission denied''), Some docOriginal)"
  by (simp add: editFile_editorWorld startFails_def cleanAttempt_def
        attemptStep_start_fails [where name="''/tmp/ldc1''"])

section \<open>A failed read\<close>

text \<open>
  C3, at an input where the code departs from it. Reading the file back fails after the
  thirteen bytes of a valid document, and the user answers \<open>y\<close> to \<open>Try again?\<close>. The loop
  does not go round again: the script holds one pass and the editor was started once. The
  bytes read before the failure are compared with the original, the comment prompt
  follows, and the patch made from the partial data is returned.
\<close>

theorem read_failure_then_yes_uses_partial_data:
  "map_option (\<lambda>(r, w'). (r, length (spawned w'), stdout w'))
     (editFile diffDemo docOriginal [readFails] (editorWorld [''y'', ''fix''])) =
   Some (Return (Some \<lparr>Comment = ''fix'',
                        Patch = [\<lparr>Op = ''replace'', Path = ''/a'', Value = 0\<rparr>]\<rparr>) None,
         1,
         [Println [''Unable to read file: %s'', ''<nil>''], Print ''Try again? [y]/n  '',
          Print ''Enter comment: ''])"
proof -
  have step: "attemptStep diffDemo docOriginal ep ''vi'' docOriginal [] readFails (editorWorld [''y'', ''fix'']) =
      (Break [\<lparr>Operation = ''replace'', jPath = ''/a'', jValue = JNum 3\<rparr>],
       (editorWorld [''y'', ''fix''])
         \<lparr>pos := 1,
          stdout := [Println [''Unable to read file: %s'', ''<nil>''], Print ''Try again? [y]/n  ''],
          files := Map.empty,
          spawned := [(ep, [''vi'', ''/tmp/ldc1''])]\<rparr>)" for ep
    by (simp add: attemptStep_def seedFile_def runEditor_def readBack_def validate_def
          readFails_def cleanAttempt_def diffDemo_def docOriginal_def docSpaced_def
          docOneChange_def docTwoChanges_def yesOrNo_eq emit_def showErr_def
          editorWorld_def emptyWorld_def Let_def)
  show ?thesis
    by (simp add: editFile_editorWorld step afterLoop_nonempty editorWorld_setup opAt_def)
qed

section \<open>The values of the returned patch\<close>

text \<open>
  After any run of retried edits and a valid edit with a non-empty diff, the returned patch
  has one operation for each operation of the diff, in the same order and with the same
  operation name and path, and the comment is the line typed at the comment prompt. Every
  value pointer leads to the loop variable, so every value reads as the value of the last
  operation of the diff.
\<close>

lemma patch_values_read_last:
  assumes "vals w cEDITOR = Some (VString editor)" and "commandV w editor = Inr raw"
    and "retried CreatePatch original (stdin w) (pos w) original pre"
    and "ioOk a"
    and "CreatePatch original (edit a (seedAfter original pre)) = Inr ops" and "ops \<noteq> []"
  shows "\<exists>w' pc. editFile CreatePatch original (pre @ a # rest) w = Some (Return (Some pc) None, w')
           \<and> Comment pc = stdin w (pos w + length pre)
           \<and> wire w' pc = map (\<lambda>x. (Operation x, jPath x, Some (jValue (last ops)))) ops"
proof -
  from changed_edit_result [OF assms, of rest] obtain w' where
    "editFile CreatePatch original (pre @ a # rest) w =
       Some (Return (Some \<lparr>Comment = stdin w (pos w + length pre),
                            Patch = map (opAt (nextAddr w)) ops\<rparr>) None, w')"
    "heap w' = (heap w)(nextAddr w \<mapsto> last ops)" by blast
  then show ?thesis by (simp add: wire_opAt)
qed

text \<open>
  C6, at an input where the code departs from it. The diff has two replacements, with the
  values 3 and 4. The returned patch has the operations and the paths of the diff in order
  and the comment as typed, but both of its values read 4.
\<close>

theorem patch_values_share_one_variable:
  "map_option (\<lambda>(r, w'). case r of Return (Some pc) None \<Rightarrow> (Comment pc, wire w' pc) | _ \<Rightarrow> ([], []))
     (editFile diffDemo docOriginal [cleanAttempt ''/tmp/ldc1'' docTwoChanges]
        (editorWorld [''fixed typo''])) =
   Some (''fixed typo'',
         [(''replace'', ''/a'', Some (JNum 4)), (''replace'', ''/b'', Some (JNum 4))])
   \<and> diffDemo docOriginal docTwoChanges =
       Inr [\<lparr>Operation = ''replace'', jPath = ''/a'', jValue = JNum 3\<rparr>,
            \<lparr>Operation = ''replace'', jPath = ''/b'', jValue = JNum 4\<rparr>]"
  by (simp add: editFile_editorWorld attemptStep_ioOk ioOk_cleanAttempt diffDemo_values
        afterLoop_nonempty passWorld_frame wire_def opAt_def editorWorld_setup)

end
